theory Spec2Isabelle
  imports Main
begin

section \<open>Values, exceptions and the SQL text of scraper.py\<close>

text \<open>
  Python exceptions. \<open>except Exception\<close> catches the first kind only; a
  \<open>BaseException\<close> (KeyboardInterrupt, SystemExit) passes through every handler of
  the script and is stopped by nothing but the \<open>finally\<close> clause, which runs and
  lets it go on.
\<close>

datatype exn = Exception string | BaseException string

fun str_exn :: "exn \<Rightarrow> string" where
  "str_exn (Exception m) = m"
| "str_exn (BaseException m) = m"

text \<open>
  Values handed to and stored by the database. Numbers of the NUMERIC(p, 2) columns are
  counted in hundredths. Python's None is \<open>Null\<close>.
\<close>

datatype val = Null | IntV int | NumV int | TextV string | TimeV nat

datatype sqltype = SERIAL | VARCHAR nat | NUMERIC nat nat | TIMESTAMPTZ

record column =
  cname :: string
  ctype :: sqltype
  primary_key :: bool
  is_unique :: bool
  not_null :: bool
  default_now :: bool

record table_def =
  tname :: string
  columns :: "column list"
  table_unique :: "string list list"

definition mk_col :: "string \<Rightarrow> sqltype \<Rightarrow> bool \<Rightarrow> bool \<Rightarrow> bool \<Rightarrow> bool \<Rightarrow> column" where
  "mk_col n t pk uq nn dn =
     \<lparr>cname = n, ctype = t, primary_key = pk, is_unique = uq, not_null = nn, default_now = dn\<rparr>"

text \<open>The four CREATE TABLE statements of setup_database, column by column.\<close>

definition indices_def :: table_def where
  "indices_def = \<lparr>tname = ''indices'', columns =
     [mk_col ''id'' SERIAL True False False False,
      mk_col ''name'' (VARCHAR 50) False True True False,
      mk_col ''current_value'' (NUMERIC 12 2) False False False False,
      mk_col ''change'' (NUMERIC 12 2) False False False False,
      mk_col ''percent_change'' (NUMERIC 5 2) False False False False,
      mk_col ''last_updated'' TIMESTAMPTZ False False False True],
     table_unique = []\<rparr>"

definition market_movers_def :: table_def where
  "market_movers_def = \<lparr>tname = ''market_movers'', columns =
     [mk_col ''id'' SERIAL True False False False,
      mk_col ''ticker'' (VARCHAR 50) False False True False,
      mk_col ''price'' (NUMERIC 12 2) False False False False,
      mk_col ''percent_change'' (NUMERIC 5 2) False False False False,
      mk_col ''mover_type'' (VARCHAR 10) False False True False],
     table_unique = [[''ticker'', ''mover_type'']]\<rparr>"

definition sectoral_performance_def :: table_def where
  "sectoral_performance_def = \<lparr>tname = ''sectoral_performance'', columns =
     [mk_col ''id'' SERIAL True False False False,
      mk_col ''sector_name'' (VARCHAR 100) False True True False,
      mk_col ''percent_change'' (NUMERIC 5 2) False False False False,
      mk_col ''last_updated'' TIMESTAMPTZ False False False True],
     table_unique = []\<rparr>"

definition volume_shockers_def :: table_def where
  "volume_shockers_def = \<lparr>tname = ''volume_shockers'', columns =
     [mk_col ''id'' SERIAL True False False False,
      mk_col ''ticker'' (VARCHAR 50) False True True False,
      mk_col ''volume_change_percent'' (NUMERIC 10 2) False False False False,
      mk_col ''last_updated'' TIMESTAMPTZ False False False True],
     table_unique = []\<rparr>"

datatype expr = Param val | Literal val | EXCLUDED string | CURRENT_TIMESTAMP

text \<open>
  The two kinds of statement the script issues. An upsert is
  \<open>INSERT INTO t (cols) VALUES (vals) ON CONFLICT (target) DO UPDATE SET sets\<close>.
\<close>

datatype stmt =
    CREATE_TABLE_IF_NOT_EXISTS table_def
  | INSERT_ON_CONFLICT_UPDATE string "string list" "expr list" "string list" "(string \<times> expr) list"

definition mover_stmt :: "string \<Rightarrow> val \<Rightarrow> val \<Rightarrow> val \<Rightarrow> stmt" where
  "mover_stmt mt symbol lastPrice pChange =
     INSERT_ON_CONFLICT_UPDATE ''market_movers''
       [''ticker'', ''price'', ''percent_change'', ''mover_type'']
       [Param symbol, Param lastPrice, Param pChange, Literal (TextV mt)]
       [''ticker'', ''mover_type'']
       [(''price'', EXCLUDED ''price''), (''percent_change'', EXCLUDED ''percent_change'')]"

definition sector_stmt :: "val \<Rightarrow> val \<Rightarrow> stmt" where
  "sector_stmt sector pChange =
     INSERT_ON_CONFLICT_UPDATE ''sectoral_performance''
       [''sector_name'', ''percent_change'']
       [Param sector, Param pChange]
       [''sector_name'']
       [(''percent_change'', EXCLUDED ''percent_change''), (''last_updated'', CURRENT_TIMESTAMP)]"

section \<open>The world the script runs in\<close>

text \<open>
  The database driver is an object the script only calls: \<open>execute\<close> and \<open>commit\<close>
  may raise and may change the database. The control flow of the script is modelled
  for every such driver; section "PostgreSQL" gives the one the SQL text is written for.
\<close>

record 'db dbapi =
  execute :: "stmt \<Rightarrow> 'db \<Rightarrow> exn option \<times> 'db"
  commit :: "'db \<Rightarrow> exn option \<times> 'db"

type_synonym pydict = "(string \<times> val) list"

text \<open>What the three calls into the market-data client return, or raise.\<close>

record nse =
  get_top_gainers :: "exn + pydict list"
  get_top_losers :: "exn + pydict list"
  get_sectoral_indices :: "exn + (val \<times> pydict) list"

record 'db env =
  driver :: "'db dbapi"
  connect :: "exn option"
  Nse :: "exn + nse"

datatype event =
    NseInit
  | Connect
  | Query stmt
  | Commit
  | Close
  | Call string

record 'db world =
  dbst :: 'db
  conn_open :: bool
  events :: "event list"
  stdout :: "string list"

type_synonym 'db action = "'db world \<Rightarrow> exn option \<times> 'db world"

definition print :: "string \<Rightarrow> 'db action" where
  "print s w = (None, w\<lparr>stdout := stdout w @ [s]\<rparr>)"

definition raise :: "exn \<Rightarrow> 'db action" where
  "raise e w = (Some e, w)"

definition emit :: "event \<Rightarrow> 'db action" where
  "emit ev w = (None, w\<lparr>events := events w @ [ev]\<rparr>)"

definition andthen :: "'db action \<Rightarrow> 'db action \<Rightarrow> 'db action" where
  "andthen f g w = (case f w of (None, w') \<Rightarrow> g w' | (Some e, w') \<Rightarrow> (Some e, w'))"

fun for_each :: "('a \<Rightarrow> 'db action) \<Rightarrow> 'a list \<Rightarrow> 'db action" where
  "for_each body [] w = (None, w)"
| "for_each body (x # xs) w =
     (case body x w of (None, w') \<Rightarrow> for_each body xs w' | (Some e, w') \<Rightarrow> (Some e, w'))"

text \<open>\<open>try: body except Exception as e: handler e\<close>\<close>

definition try_except :: "'db action \<Rightarrow> (exn \<Rightarrow> 'db action) \<Rightarrow> 'db action" where
  "try_except body handler w =
     (case body w of
        (Some (Exception m), w') \<Rightarrow> handler (Exception m) w'
      | r \<Rightarrow> r)"

text \<open>\<open>try: body finally: fin\<close>: \<open>fin\<close> runs in every case; the outcome of the body
  stands unless \<open>fin\<close> raises itself.\<close>

definition try_finally :: "'db action \<Rightarrow> 'db action \<Rightarrow> 'db action" where
  "try_finally body fin w =
     (case body w of (r, w') \<Rightarrow>
        (case fin w' of (None, w'') \<Rightarrow> (r, w'') | (Some e, w'') \<Rightarrow> (Some e, w'')))"

definition cur_execute :: "'db dbapi \<Rightarrow> stmt \<Rightarrow> 'db action" where
  "cur_execute X q w =
     (case execute X q (dbst w) of
        (r, d) \<Rightarrow> (r, w\<lparr>dbst := d, events := events w @ [Query q]\<rparr>))"

definition conn_commit :: "'db dbapi \<Rightarrow> 'db action" where
  "conn_commit X w =
     (case commit X (dbst w) of
        (r, d) \<Rightarrow> (r, w\<lparr>dbst := d, events := events w @ [Commit]\<rparr>))"

definition conn_close :: "'db action" where
  "conn_close w = (None, w\<lparr>conn_open := False, events := events w @ [Close]\<rparr>)"

text \<open>\<open>d[k]\<close> on a dict: KeyError when the key is missing.\<close>

definition getitem :: "pydict \<Rightarrow> string \<Rightarrow> exn + val" where
  "getitem d k = (case map_of d k of None \<Rightarrow> Inl (Exception (''KeyError: '' @ k)) | Some v \<Rightarrow> Inr v)"

section \<open>scraper.py\<close>

text \<open>Returns the connection (\<open>True\<close>) or None (\<open>False\<close>); an exception that is
  not an \<open>Exception\<close> leaves the function.\<close>

definition get_db_connection :: "'db env \<Rightarrow> 'db world \<Rightarrow> (exn + bool) \<times> 'db world" where
  "get_db_connection E w =
     (let w1 = w\<lparr>events := events w @ [Connect]\<rparr> in
      case connect E of
        None \<Rightarrow>
          (Inr True, w1\<lparr>conn_open := True,
                          stdout := stdout w1 @ [''Database connection successful.'']\<rparr>)
      | Some (Exception m) \<Rightarrow>
          (Inr False, w1\<lparr>stdout := stdout w1 @ [''Error connecting to the database: '' @ m]\<rparr>)
      | Some (BaseException m) \<Rightarrow> (Inl (BaseException m), w1))"

definition setup_database :: "'db dbapi \<Rightarrow> 'db action" where
  "setup_database X =
     andthen (cur_execute X (CREATE_TABLE_IF_NOT_EXISTS indices_def))
    (andthen (cur_execute X (CREATE_TABLE_IF_NOT_EXISTS market_movers_def))
    (andthen (cur_execute X (CREATE_TABLE_IF_NOT_EXISTS sectoral_performance_def))
    (andthen (cur_execute X (CREATE_TABLE_IF_NOT_EXISTS volume_shockers_def))
    (andthen (conn_commit X)
             (print ''Database tables are set up.'')))))"

text \<open>The parameter tuple of a statement is built left to right: the first missing key
  raises.\<close>

definition mover_query :: "string \<Rightarrow> pydict \<Rightarrow> exn + stmt" where
  "mover_query mt d =
     (case getitem d ''symbol'' of Inl e \<Rightarrow> Inl e | Inr s \<Rightarrow>
       (case getitem d ''lastPrice'' of Inl e \<Rightarrow> Inl e | Inr p \<Rightarrow>
         (case getitem d ''pChange'' of Inl e \<Rightarrow> Inl e | Inr c \<Rightarrow> Inr (mover_stmt mt s p c))))"

definition sector_query :: "val \<times> pydict \<Rightarrow> exn + stmt" where
  "sector_query item =
     (case getitem (snd item) ''pChange'' of Inl e \<Rightarrow> Inl e | Inr c \<Rightarrow> Inr (sector_stmt (fst item) c))"

definition upsert_mover :: "'db dbapi \<Rightarrow> string \<Rightarrow> pydict \<Rightarrow> 'db action" where
  "upsert_mover X mt d = (case mover_query mt d of Inl e \<Rightarrow> raise e | Inr q \<Rightarrow> cur_execute X q)"

definition upsert_sector :: "'db dbapi \<Rightarrow> val \<times> pydict \<Rightarrow> 'db action" where
  "upsert_sector X item = (case sector_query item of Inl e \<Rightarrow> raise e | Inr q \<Rightarrow> cur_execute X q)"

definition fetch :: "string \<Rightarrow> exn + 'a \<Rightarrow> ('a \<Rightarrow> 'db action) \<Rightarrow> 'db action" where
  "fetch name result k =
     andthen (emit (Call name)) (case result of Inl e \<Rightarrow> raise e | Inr xs \<Rightarrow> k xs)"

definition market_movers_block :: "'db dbapi \<Rightarrow> nse \<Rightarrow> 'db action" where
  "market_movers_block X n =
     fetch ''get_top_gainers'' (get_top_gainers n) (\<lambda>top_gainers.
       andthen (for_each (upsert_mover X ''GAINER'') (take 5 top_gainers))
      (fetch ''get_top_losers'' (get_top_losers n) (\<lambda>top_losers.
       andthen (for_each (upsert_mover X ''LOSER'') (take 5 top_losers))
               (print ''- Market Movers updated.''))))"

definition sectoral_block :: "'db dbapi \<Rightarrow> nse \<Rightarrow> 'db action" where
  "sectoral_block X n =
     fetch ''get_sectoral_indices'' (get_sectoral_indices n) (\<lambda>sector_data.
       andthen (for_each (upsert_sector X) sector_data)
               (print ''- Sectoral Performance updated.''))"

definition update_data :: "'db dbapi \<Rightarrow> nse \<Rightarrow> 'db action" where
  "update_data X n =
     andthen (print ''Fetching and updating data...'')
    (andthen (try_except (market_movers_block X n)
                (\<lambda>e. print (''Error updating Market Movers: '' @ str_exn e)))
    (andthen (try_except (sectoral_block X n)
                (\<lambda>e. print (''Error updating Sectoral Performance: '' @ str_exn e)))
    (andthen (conn_commit X)
             (print ''All data updates committed.''))))"

definition main :: "'db env \<Rightarrow> 'db action" where
  "main E =
     andthen (print ''Starting data scraper script...'')
    (andthen (emit NseInit)
       (case Nse E of Inl e \<Rightarrow> raise e | Inr n \<Rightarrow> (\<lambda>w.
          case get_db_connection E w of
            (Inl e, w1) \<Rightarrow> (Some e, w1)
          | (Inr False, w1) \<Rightarrow> (None, w1)
          | (Inr True, w1) \<Rightarrow>
              try_finally
                (try_except
                   (andthen (setup_database (driver E))
                   (andthen (update_data (driver E) n)
                            (print ''Script finished successfully.'')))
                   (\<lambda>e. print (''A critical error occurred: '' @ str_exn e)))
                (andthen conn_close (print ''Database connection closed.''))
                w1)))"

section \<open>PostgreSQL: what the two kinds of statement do\<close>

type_synonym row = "(string \<times> val) list"

text \<open>A table: its definition, its rows in insertion order, and the sequence behind its
  SERIAL column.\<close>

record table =
  tdef :: table_def
  trows :: "row list"
  next_id :: int

record pgdb =
  tables :: "(string \<times> table) list"
  clock :: nat

definition cell :: "row \<Rightarrow> string \<Rightarrow> val" where
  "cell r c = (case map_of r c of Some v \<Rightarrow> v | None \<Rightarrow> Null)"

definition key_of :: "string list \<Rightarrow> row \<Rightarrow> val list" where
  "key_of u r = map (cell r) u"

text \<open>PRIMARY KEY and UNIQUE on a column, and UNIQUE (...) on the table.\<close>

definition unique_keys :: "table_def \<Rightarrow> string list list" where
  "unique_keys d =
     map (\<lambda>c. [cname c]) (filter (\<lambda>c. primary_key c \<or> is_unique c) (columns d)) @ table_unique d"

definition required :: "column \<Rightarrow> bool" where
  "required c = (not_null c \<or> primary_key c \<or> ctype c = SERIAL)"

fun conforms :: "sqltype \<Rightarrow> val \<Rightarrow> bool" where
  "conforms t Null = True"
| "conforms SERIAL (IntV i) = True"
| "conforms (VARCHAR n) (TextV s) = (length s \<le> n)"
| "conforms (NUMERIC p sc) (NumV k) = (sc = 2 \<and> \<bar>k\<bar> < 10 ^ p)"
| "conforms TIMESTAMPTZ (TimeV t) = True"
| "conforms t v = False"

fun is_excluded :: "expr \<Rightarrow> bool" where
  "is_excluded (EXCLUDED c) = True"
| "is_excluded e = False"

fun eval_expr :: "nat \<Rightarrow> row \<Rightarrow> expr \<Rightarrow> val" where
  "eval_expr now excl (Param v) = v"
| "eval_expr now excl (Literal v) = v"
| "eval_expr now excl (EXCLUDED c) = cell excl c"
| "eval_expr now excl CURRENT_TIMESTAMP = TimeV now"

definition default_of :: "nat \<Rightarrow> table \<Rightarrow> column \<Rightarrow> val" where
  "default_of now t c =
     (if ctype c = SERIAL then IntV (next_id t)
      else if default_now c then TimeV now else Null)"

text \<open>The row proposed for insertion: the given values, and the default of every column
  that is not named.\<close>

definition proposed :: "nat \<Rightarrow> table \<Rightarrow> string list \<Rightarrow> expr list \<Rightarrow> row" where
  "proposed now t cols vals =
     map (\<lambda>c. (cname c, case map_of (zip cols vals) (cname c) of
                           Some e \<Rightarrow> eval_expr now [] e
                         | None \<Rightarrow> default_of now t c))
         (columns (tdef t))"

text \<open>DO UPDATE SET: the assigned columns take their new values, the others stay.\<close>

definition assign :: "table_def \<Rightarrow> nat \<Rightarrow> row \<Rightarrow> (string \<times> expr) list \<Rightarrow> row \<Rightarrow> row" where
  "assign d now excl sets r =
     map (\<lambda>c. (cname c, case map_of sets (cname c) of
                           Some e \<Rightarrow> eval_expr now excl e
                         | None \<Rightarrow> cell r (cname c)))
         (columns d)"

definition row_error :: "table_def \<Rightarrow> row \<Rightarrow> exn option" where
  "row_error d r =
     (if list_ex (\<lambda>c. required c \<and> cell r (cname c) = Null) (columns d)
        then Some (Exception ''NotNullViolation'')
      else if list_ex (\<lambda>c. \<not> conforms (ctype c) (cell r (cname c))) (columns d)
        then Some (Exception ''DataError'')
      else None)"

text \<open>Two rows conflict on a key when they agree on it and no part of it is NULL.\<close>

definition key_match :: "string list \<Rightarrow> row \<Rightarrow> row \<Rightarrow> bool" where
  "key_match u new r = (Null \<notin> set (key_of u new) \<and> key_of u new = key_of u r)"

fun upsert_rows :: "(row \<Rightarrow> bool) \<Rightarrow> (row \<Rightarrow> row) \<Rightarrow> row \<Rightarrow> row list \<Rightarrow> row list" where
  "upsert_rows hit upd new [] = [new]"
| "upsert_rows hit upd new (r # rs) =
     (if hit r then upd r # rs else r # upsert_rows hit upd new rs)"

definition uses_sequence :: "table_def \<Rightarrow> string list \<Rightarrow> bool" where
  "uses_sequence d cols = list_ex (\<lambda>c. ctype c = SERIAL \<and> cname c \<notin> set cols) (columns d)"

text \<open>Errors of the statement itself, before any row is looked at.\<close>

definition statement_error ::
  "table_def \<Rightarrow> string list \<Rightarrow> expr list \<Rightarrow> string list \<Rightarrow> (string \<times> expr) list \<Rightarrow> exn option" where
  "statement_error d cols vals target sets =
     (if length cols \<noteq> length vals \<or> list_ex is_excluded vals
        then Some (Exception ''SyntaxError'')
      else if \<not> (list_all (\<lambda>c. c \<in> set (map cname (columns d))) (cols @ map fst sets @ target))
        then Some (Exception ''UndefinedColumn'')
      else if \<not> list_ex (\<lambda>u. set u = set target) (unique_keys d)
        then Some (Exception ''InvalidColumnReference'')
      else None)"

text \<open>No row conflicts on the target: the proposed row is appended, unless it conflicts
  on another key of the table.\<close>

definition insert_row :: "table_def \<Rightarrow> row \<Rightarrow> row list \<Rightarrow> exn + row list" where
  "insert_row d new rows =
     (if list_ex (\<lambda>u. list_ex (key_match u new) rows) (unique_keys d)
        then Inl (Exception ''UniqueViolation'')
      else Inr (rows @ [new]))"

text \<open>The row \<open>old\<close> conflicts on the target: it is updated in place. A key is checked
  again only when the SET clause writes one of its columns.\<close>

definition update_row ::
  "table_def \<Rightarrow> nat \<Rightarrow> row \<Rightarrow> string list \<Rightarrow> (string \<times> expr) list \<Rightarrow> row \<Rightarrow> row list \<Rightarrow> exn + row list" where
  "update_row d now new target sets old rows =
     (case row_error d (assign d now new sets old) of
        Some e \<Rightarrow> Inl e
      | None \<Rightarrow>
          if list_ex (\<lambda>u. list_ex (\<lambda>c. c \<in> set u) (map fst sets)
                         \<and> list_ex (\<lambda>r. r \<noteq> old \<and> key_match u (assign d now new sets old) r) rows)
                     (unique_keys d)
            then Inl (Exception ''UniqueViolation'')
          else Inr (upsert_rows (key_match target new) (assign d now new sets) new rows))"

definition insert_or_update ::
  "table_def \<Rightarrow> nat \<Rightarrow> row \<Rightarrow> string list \<Rightarrow> (string \<times> expr) list \<Rightarrow> row list \<Rightarrow> exn + row list" where
  "insert_or_update d now new target sets rows =
     (case filter (key_match target new) rows of
        [] \<Rightarrow> insert_row d new rows
      | old # others \<Rightarrow> update_row d now new target sets old rows)"

definition pg_upsert ::
  "nat \<Rightarrow> string list \<Rightarrow> expr list \<Rightarrow> string list \<Rightarrow> (string \<times> expr) list \<Rightarrow> table \<Rightarrow> exn + table" where
  "pg_upsert now cols vals target sets t =
     (case statement_error (tdef t) cols vals target sets of
        Some e \<Rightarrow> Inl e
      | None \<Rightarrow>
          (case row_error (tdef t) (proposed now t cols vals) of
             Some e \<Rightarrow> Inl e
           | None \<Rightarrow>
               (case insert_or_update (tdef t) now (proposed now t cols vals) target sets (trows t) of
                  Inl e \<Rightarrow> Inl e
                | Inr rs \<Rightarrow>
                    Inr (t\<lparr>trows := rs,
                           next_id := (if uses_sequence (tdef t) cols then next_id t + 1
                                       else next_id t)\<rparr>))))"

definition put_table :: "string \<Rightarrow> table \<Rightarrow> (string \<times> table) list \<Rightarrow> (string \<times> table) list" where
  "put_table n t ts = map (\<lambda>(m, x). if m = n then (m, t) else (m, x)) ts"

text \<open>CREATE TABLE IF NOT EXISTS: a table of that name is left alone, whatever its
  definition; otherwise an empty table is added.\<close>

definition create_table :: "table_def \<Rightarrow> pgdb \<Rightarrow> pgdb" where
  "create_table d db =
     (case map_of (tables db) (tname d) of
        Some t \<Rightarrow> db
      | None \<Rightarrow> db\<lparr>tables := tables db @ [(tname d, \<lparr>tdef = d, trows = [], next_id = 1\<rparr>)]\<rparr>)"

text \<open>A statement that raises leaves the tables as they were.\<close>

fun pg_execute :: "stmt \<Rightarrow> pgdb \<Rightarrow> exn option \<times> pgdb" where
  "pg_execute (CREATE_TABLE_IF_NOT_EXISTS d) db = (None, create_table d db)"
| "pg_execute (INSERT_ON_CONFLICT_UPDATE tn cols vals target sets) db =
     (case map_of (tables db) tn of
        None \<Rightarrow> (Some (Exception ''UndefinedTable''), db)
      | Some t \<Rightarrow>
          (case pg_upsert (clock db) cols vals target sets t of
             Inl e \<Rightarrow> (Some e, db)
           | Inr t' \<Rightarrow> (None, db\<lparr>tables := put_table tn t' (tables db)\<rparr>)))"

definition pg :: "pgdb dbapi" where
  "pg = \<lparr>execute = pg_execute, commit = (\<lambda>db. (None, db))\<rparr>"

section \<open>Runs, and what is observed of them\<close>

datatype operation = Setup | Update nse

fun run_ops :: "operation list \<Rightarrow> pgdb world \<Rightarrow> pgdb world" where
  "run_ops [] w = w"
| "run_ops (Setup # ops) w = run_ops ops (snd (setup_database pg w))"
| "run_ops (Update n # ops) w = run_ops ops (snd (update_data pg n w))"

definition start :: "'db \<Rightarrow> 'db world" where
  "start d = \<lparr>dbst = d, conn_open = False, events = [], stdout = []\<rparr>"

definition empty_db :: "nat \<Rightarrow> pgdb" where
  "empty_db now = \<lparr>tables = [], clock = now\<rparr>"

definition rows_of :: "pgdb \<Rightarrow> string \<Rightarrow> row list" where
  "rows_of db n = (case map_of (tables db) n of None \<Rightarrow> [] | Some t \<Rightarrow> trows t)"

definition unique_on :: "string list \<Rightarrow> row list \<Rightarrow> bool" where
  "unique_on u rs = distinct (map (key_of u) rs)"

definition schema_of :: "pgdb \<Rightarrow> string \<Rightarrow> table_def option" where
  "schema_of db n = map_option tdef (map_of (tables db) n)"

definition has_column :: "table_def \<Rightarrow> string \<Rightarrow> bool" where
  "has_column d c = (c \<in> set (map cname (columns d)))"

text \<open>A table is keyed by a list of columns when that list is one of its unique keys and
  each of its columns is declared NOT NULL.\<close>

definition keyed_by :: "table_def \<Rightarrow> string list \<Rightarrow> bool" where
  "keyed_by d u =
     (u \<in> set (unique_keys d) \<and>
      list_all (\<lambda>c. list_ex (\<lambda>k. cname k = c \<and> not_null k) (columns d)) u)"

definition table_names :: "string list" where
  "table_names = [''indices'', ''market_movers'', ''sectoral_performance'', ''volume_shockers'']"

text \<open>The events a run has added to the world it started in.\<close>

definition new_events :: "'db world \<Rightarrow> 'db world \<Rightarrow> event list" where
  "new_events w w' = drop (length (events w)) (events w')"

fun upsert_target :: "event \<Rightarrow> string option" where
  "upsert_target (Query (INSERT_ON_CONFLICT_UPDATE tn cols vals target sets)) = Some tn"
| "upsert_target ev = None"

fun is_mover_upsert :: "string \<Rightarrow> event \<Rightarrow> bool" where
  "is_mover_upsert mt (Query (INSERT_ON_CONFLICT_UPDATE tn cols vals target sets)) =
     (tn = ''market_movers'' \<and> Literal (TextV mt) \<in> set vals)"
| "is_mover_upsert mt ev = False"

subsection \<open>Sample data\<close>

definition sample_gainer :: pydict where
  "sample_gainer = [(''symbol'', TextV ''TCS''), (''lastPrice'', NumV 350000), (''pChange'', NumV 250)]"

definition sample_gainer2 :: pydict where
  "sample_gainer2 = [(''symbol'', TextV ''INFY''), (''lastPrice'', NumV 150000), (''pChange'', NumV 120)]"

definition sample_loser :: pydict where
  "sample_loser = [(''symbol'', TextV ''SBIN''), (''lastPrice'', NumV 60000), (''pChange'', NumV (- 310))]"

definition sample_sectors :: "(val \<times> pydict) list" where
  "sample_sectors = [(TextV ''NIFTY IT'', [(''pChange'', NumV 110)])]"

definition sample_nse :: nse where
  "sample_nse = \<lparr>get_top_gainers = Inr [sample_gainer, sample_gainer2],
                  get_top_losers = Inr [sample_loser],
                  get_sectoral_indices = Inr sample_sectors\<rparr>"

text \<open>A client whose market-movers fetch fails.\<close>

definition failing_nse :: nse where
  "failing_nse = \<lparr>get_top_gainers = Inl (Exception ''ConnectionError''),
                   get_top_losers = Inr [sample_loser],
                   get_sectoral_indices = Inr sample_sectors\<rparr>"

definition sample_env :: "pgdb env" where
  "sample_env = \<lparr>driver = pg, connect = None, Nse = Inr sample_nse\<rparr>"

definition offline_env :: "pgdb env" where
  "offline_env = \<lparr>driver = pg, connect = Some (Exception ''OperationalError''), Nse = Inr sample_nse\<rparr>"

section \<open>The schema\<close>

lemma setup_database_pg:
  "setup_database pg w =
     (None, w\<lparr>dbst := create_table volume_shockers_def (create_table sectoral_performance_def
                         (create_table market_movers_def (create_table indices_def (dbst w)))),
              events := events w @ [Query (CREATE_TABLE_IF_NOT_EXISTS indices_def),
                 Query (CREATE_TABLE_IF_NOT_EXISTS market_movers_def),
                 Query (CREATE_TABLE_IF_NOT_EXISTS sectoral_performance_def),
                 Query (CREATE_TABLE_IF_NOT_EXISTS volume_shockers_def), Commit],
              stdout := stdout w @ [''Database tables are set up.'']\<rparr>)"
  by (simp add: setup_database_def andthen_def cur_execute_def conn_commit_def print_def pg_def)

lemma create_present: "map_of (tables db) (tname d) \<noteq> None \<Longrightarrow> create_table d db = db"
  by (auto simp: create_table_def)

lemma map_of_create:
  "map_of (tables (create_table d db)) n =
     (case map_of (tables db) n of Some t \<Rightarrow> Some t
      | None \<Rightarrow> if n = tname d then Some \<lparr>tdef = d, trows = [], next_id = 1\<rparr> else None)"
  by (auto simp: create_table_def map_add_def split: option.splits)

lemma create_keeps: "map_of (tables db) n \<noteq> None \<Longrightarrow> map_of (tables (create_table d db)) n \<noteq> None"
  by (auto simp: map_of_create split: option.splits)

lemma create_adds: "map_of (tables (create_table d db)) (tname d) \<noteq> None"
  by (auto simp: map_of_create split: option.splits)


lemma table_name_simps:
  "tname indices_def = ''indices''" "tname market_movers_def = ''market_movers''"
  "tname sectoral_performance_def = ''sectoral_performance''"
  "tname volume_shockers_def = ''volume_shockers''"
  by (simp_all add: indices_def_def market_movers_def_def sectoral_performance_def_def
        volume_shockers_def_def)

lemma setup_database_dbst:
  "dbst (snd (setup_database pg w)) =
     create_table volume_shockers_def (create_table sectoral_performance_def
       (create_table market_movers_def (create_table indices_def (dbst w))))"
  by (simp add: setup_database_pg)

lemma setup_database_all_present:
  "list_all (\<lambda>n. map_of (tables (dbst (snd (setup_database pg w)))) n \<noteq> None) table_names"
proof -
  have "map_of (tables (dbst (snd (setup_database pg w)))) (tname indices_def) \<noteq> None"
    unfolding setup_database_dbst by (intro create_keeps create_adds)
  moreover have "map_of (tables (dbst (snd (setup_database pg w)))) (tname market_movers_def) \<noteq> None"
    unfolding setup_database_dbst by (intro create_keeps create_adds)
  moreover have "map_of (tables (dbst (snd (setup_database pg w)))) (tname sectoral_performance_def) \<noteq> None"
    unfolding setup_database_dbst by (intro create_keeps create_adds)
  moreover have "map_of (tables (dbst (snd (setup_database pg w)))) (tname volume_shockers_def) \<noteq> None"
    unfolding setup_database_dbst by (intro create_adds)
  ultimately show ?thesis
    by (simp add: table_names_def table_name_simps)
qed

lemma setup_database_unchanged:
  assumes "list_all (\<lambda>n. map_of (tables (dbst w)) n \<noteq> None) table_names"
  shows "dbst (snd (setup_database pg w)) = dbst w"
  using assms
  by (simp add: setup_database_dbst create_present table_name_simps table_names_def)

text \<open>
  Claim C5. Schema creation is idempotent: from every database state, setup_database
  raises nothing, running it a second time changes nothing, and on a database in which
  the four tables already exist it changes nothing at all.
\<close>

theorem setup_database_idempotent:
  "fst (setup_database pg w) = None \<and>
   fst (setup_database pg (snd (setup_database pg w))) = None \<and>
   dbst (snd (setup_database pg (snd (setup_database pg w)))) = dbst (snd (setup_database pg w)) \<and>
   (list_all (\<lambda>n. map_of (tables (dbst w)) n \<noteq> None) table_names \<longrightarrow>
      dbst (snd (setup_database pg w)) = dbst w)"
  using setup_database_unchanged [OF setup_database_all_present [of w]]
        setup_database_unchanged [of w]
  by (simp add: setup_database_pg)

theorem setup_database_idempotent_witness:
  "list_all (\<lambda>n. map_of (tables (dbst (snd (setup_database pg (start (empty_db 0)))))) n \<noteq> None)
     table_names \<and>
   fst (setup_database pg (snd (setup_database pg (start (empty_db 0))))) = None \<and>
   dbst (snd (setup_database pg (snd (setup_database pg (start (empty_db 0))))))
     = dbst (snd (setup_database pg (start (empty_db 0))))"
  using setup_database_idempotent [of "snd (setup_database pg (start (empty_db 0)))"]
        setup_database_all_present [of "start (empty_db 0)"]
  by simp

lemma setup_database_fresh:
  "tables (dbst (snd (setup_database pg (start (empty_db now))))) =
     [(''indices'', \<lparr>tdef = indices_def, trows = [], next_id = 1\<rparr>),
      (''market_movers'', \<lparr>tdef = market_movers_def, trows = [], next_id = 1\<rparr>),
      (''sectoral_performance'', \<lparr>tdef = sectoral_performance_def, trows = [], next_id = 1\<rparr>),
      (''volume_shockers'', \<lparr>tdef = volume_shockers_def, trows = [], next_id = 1\<rparr>)]"
  by (simp add: setup_database_dbst create_table_def table_name_simps start_def empty_db_def)

lemma keyed_by_simps:
  "keyed_by indices_def [''name'']"
  "keyed_by market_movers_def [''ticker'', ''mover_type'']"
  "keyed_by sectoral_performance_def [''sector_name'']"
  "keyed_by volume_shockers_def [''ticker'']"
  by (simp_all add: keyed_by_def unique_keys_def mk_col_def indices_def_def market_movers_def_def
        sectoral_performance_def_def volume_shockers_def_def)

lemma last_updated_simps:
  "has_column indices_def ''last_updated''"
  "\<not> has_column market_movers_def ''last_updated''"
  "has_column sectoral_performance_def ''last_updated''"
  "has_column volume_shockers_def ''last_updated''"
  by (simp_all add: has_column_def mk_col_def indices_def_def market_movers_def_def
        sectoral_performance_def_def volume_shockers_def_def)

text \<open>
  Claim C3, as stated, fails: the market_movers table that setup_database creates has no
  last-updated column.
\<close>

theorem market_movers_no_timestamp:
  "schema_of (dbst (snd (setup_database pg (start (empty_db 0))))) ''market_movers''
     = Some market_movers_def \<and>
   \<not> has_column market_movers_def ''last_updated''"
  by (simp add: schema_of_def setup_database_fresh last_updated_simps)

text \<open>
  Claim C3, amended. On a database without tables, setup_database creates the four tables
  with the definitions of the script; each is keyed by its natural identifier (index
  name; ticker plus mover type; sector name; ticker), a unique key of NOT NULL columns;
  indices, sectoral_performance and volume_shockers carry a last_updated column, and
  market_movers carries none.
\<close>

theorem tables_keyed_by_natural_identifier:
  "schema_of (dbst (snd (setup_database pg (start (empty_db now))))) ''indices''
     = Some indices_def \<and>
   schema_of (dbst (snd (setup_database pg (start (empty_db now))))) ''market_movers''
     = Some market_movers_def \<and>
   schema_of (dbst (snd (setup_database pg (start (empty_db now))))) ''sectoral_performance''
     = Some sectoral_performance_def \<and>
   schema_of (dbst (snd (setup_database pg (start (empty_db now))))) ''volume_shockers''
     = Some volume_shockers_def \<and>
   keyed_by indices_def [''name''] \<and>
   keyed_by market_movers_def [''ticker'', ''mover_type''] \<and>
   keyed_by sectoral_performance_def [''sector_name''] \<and>
   keyed_by volume_shockers_def [''ticker''] \<and>
   has_column indices_def ''last_updated'' \<and>
   \<not> has_column market_movers_def ''last_updated'' \<and>
   has_column sectoral_performance_def ''last_updated'' \<and>
   has_column volume_shockers_def ''last_updated''"
  by (simp add: schema_of_def setup_database_fresh keyed_by_simps last_updated_simps)

theorem tables_keyed_by_natural_identifier_witness:
  "schema_of (dbst (snd (setup_database pg (start (empty_db 0))))) ''sectoral_performance''
     = Some sectoral_performance_def \<and>
   keyed_by sectoral_performance_def [''sector_name''] \<and>
   has_column sectoral_performance_def ''last_updated''"
  using tables_keyed_by_natural_identifier [of 0] by simp

section \<open>The connection\<close>

text \<open>
  Claim C6. A failure to obtain a database connection aborts the run: when the
  connection attempt fails, the database is left exactly as it was and the run consists
  of creating the client and attempting the connection; no statement is executed, nothing
  is fetched, nothing is committed.
\<close>

theorem no_connection_aborts_run:
  "connect E = Some e \<Longrightarrow>
     dbst (snd (main E w)) = dbst w \<and>
     set (new_events w (snd (main E w))) \<subseteq> {NseInit, Connect}"
  by (cases e; cases "Nse E")
     (simp_all add: main_def andthen_def print_def emit_def raise_def get_db_connection_def
        new_events_def Let_def)

theorem no_connection_aborts_run_witness:
  "dbst (snd (main offline_env (start (empty_db 0)))) = empty_db 0 \<and>
   set (new_events (start (empty_db 0)) (snd (main offline_env (start (empty_db 0)))))
     \<subseteq> {NseInit, Connect}"
  using no_connection_aborts_run [of offline_env "Exception ''OperationalError''" "start (empty_db 0)"]
  by (simp add: offline_env_def start_def)

text \<open>
  Claim C7. The connection is closed unconditionally: in every run that obtains a
  connection, \<open>connection.close()\<close> is the last call made and the connection is closed
  when the script ends, whatever setup_database and update_data did, also when one of
  them raised an exception that no handler of the script catches.
\<close>

theorem connection_always_closed:
  "connect E = None \<Longrightarrow> Nse E = Inr n \<Longrightarrow>
     \<not> conn_open (snd (main E w)) \<and> last (events (snd (main E w))) = Close"
  by (simp add: main_def andthen_def print_def emit_def raise_def get_db_connection_def
        try_finally_def conn_close_def Let_def split: prod.splits option.splits)

theorem connection_always_closed_witness:
  "\<not> conn_open (snd (main sample_env (start (empty_db 0)))) \<and>
   last (events (snd (main sample_env (start (empty_db 0))))) = Close"
  using connection_always_closed [of sample_env sample_nse "start (empty_db 0)"]
  by (simp add: sample_env_def)

end
